theory Spec2Isabelle
  imports Complex_Main
begin

section \<open>MuralScan: the data of \<^verbatim>\<open>src/app.ts\<close>\<close>

text \<open>
  The application object of \<^verbatim>\<open>src/app.ts\<close> is one mutable singleton. The model is
  explicit state passing: every method takes the application state and returns the
  state it leaves behind. JavaScript numbers are only stored and copied by the code
  under study (never computed with), so they are modelled by \<open>real\<close>.
\<close>

type_synonym number = real

datatype Vector3 = Vector3 number number number

text \<open>\<^verbatim>\<open>Euler.set(x, y, z)\<close> keeps the rotation order, so only the three angles are state.\<close>

datatype Euler = Euler number number number

datatype Quaternion = Quaternion number number number number

text \<open>\<^verbatim>\<open>interface Offset { position, rotation, scale }\<close>\<close>

record Offset =
  position :: Vector3
  rotation :: Euler
  scale :: Vector3

text \<open>
  \<open>rootContainer\<close> is a \<^verbatim>\<open>THREE.Group\<close>: the code writes its \<open>position\<close>,
  \<open>rotation\<close>, \<open>scale\<close> and \<open>visible\<close>. It is the record of a local transform
  extended by the visibility flag, so the field names are those of the source.
\<close>

record Group = Offset +
  visible :: bool

text \<open>\<open>origin\<close> is a \<^verbatim>\<open>THREE.Group\<close> of which the code writes position and quaternion.\<close>

record Origin =
  origin_position :: Vector3
  origin_quaternion :: Quaternion

text \<open>
  One value of the object fetched from \<^verbatim>\<open>/wayspots.json\<close>, as
  \<open>applyOffset\<close> reads it: \<^verbatim>\<open>this.wayspotData[wayspotName].offset\<close>.
\<close>

record WayspotEntry =
  offset :: Offset

text \<open>
  The own properties of the fetched object. The field \<open>wayspotData\<close> is declared
  without an initialiser and assigned in the callback of \<^verbatim>\<open>fetch\<close>, so it is
  \<^verbatim>\<open>undefined\<close> (\<open>None\<close>) until that callback has run.
\<close>

type_synonym WayspotStore = "string \<rightharpoonup> WayspotEntry"

text \<open>
  Modelled from the spec: the types \<open>FigureData\<close> and \<open>MuralData\<close> are imported from
  \<^verbatim>\<open>./lib/mural\<close>, which is not among the sources. The spec gives a figure a tag, a
  caption and a detail text, and a mural a scale and an ordered sequence of figures.
  The fields \<open>caption\<close> and \<open>detail\<close> of a figure are named \<open>fig_caption\<close> and
  \<open>fig_detail\<close> here, and the scale of a mural \<open>mural_scale\<close>, since the application
  object and \<open>Offset\<close> have fields of the same names.
\<close>

record FigureData =
  tag :: string
  fig_caption :: string
  fig_detail :: string

record MuralData =
  mural_scale :: number
  figures :: "FigureData list"

text \<open>
  The two DOM elements: \<^verbatim>\<open>style.visibility\<close> and \<^verbatim>\<open>innerText\<close>. The source reads
  them through the non-null assertion \<^verbatim>\<open>this.caption!\<close>, so they are present.
\<close>

record HTMLElement =
  visibility :: string
  innerText :: string

text \<open>
  Scene objects are heap objects compared by reference, and a material may be shared
  by several meshes: meshes and materials are references into a store that is part
  of the state (\<open>nameOf\<close>, \<open>materialOf\<close>, \<open>opacityOf\<close> below).
\<close>

type_synonym mesh_ref = nat
type_synonym material_ref = nat

text \<open>One entry of the result of \<^verbatim>\<open>raycaster.intersectObjects\<close>.\<close>

record Intersection =
  distance :: number
  object :: mesh_ref

text \<open>The payload \<^verbatim>\<open>detail\<close> of a tracking event: \<^verbatim>\<open>{ name, position, rotation }\<close>.\<close>

record TrackingEvent =
  ev_name :: string
  ev_position :: Vector3
  ev_rotation :: Quaternion

text \<open>
  What \<open>log\<close> is called with. \<^verbatim>\<open>JSON.stringify(figureData)\<close> is kept as the value
  it renders.
\<close>

datatype log_entry =
    LogText string
  | LogPosition Vector3
  | LogJson "FigureData option"

text \<open>
  The writes of the selection controller and of the caption and detail elements, in
  the order in which they happen. The field \<open>effects\<close> of the state is this history
  (a ghost field: the code never reads it); every write below appends to it.
\<close>

datatype effect =
    OpacitySet material_ref number
  | SelectedSet "mesh_ref option"
  | CaptionVisibility string
  | DetailVisibility string
  | CaptionText string
  | DetailText string
  | Logged log_entry

record App =
  caption :: HTMLElement
  detail :: HTMLElement
  logElement :: "log_entry list"
  nameOf :: "mesh_ref \<Rightarrow> string"
  materialOf :: "mesh_ref \<Rightarrow> material_ref"
  opacityOf :: "material_ref \<Rightarrow> number"
  origin :: Origin
  rootContainer :: Group
  selected :: "mesh_ref option"
  wayspotData :: "WayspotStore option"
  muralData :: "MuralData option"
  effects :: "effect list"

text \<open>
  A JavaScript exception does not undo the writes made before it: a method either
  returns, or throws and leaves the state it had reached.
\<close>

datatype error = TypeError

datatype outcome = Returned App | Threw error App

fun state_of :: "outcome \<Rightarrow> App" where
  "state_of (Returned app) = app"
| "state_of (Threw e app) = app"

fun returns :: "outcome \<Rightarrow> bool" where
  "returns (Returned app) = True"
| "returns (Threw e app) = False"

section \<open>The caption and detail elements\<close>

definition displayCaption :: "bool \<Rightarrow> App \<Rightarrow> App" where
  "displayCaption vis app =
     (let v = (if vis then ''visible'' else ''hidden'')
      in app\<lparr>caption := (caption app)\<lparr>visibility := v\<rparr>,
              effects := effects app @ [CaptionVisibility v]\<rparr>)"

definition displayDetail :: "bool \<Rightarrow> App \<Rightarrow> App" where
  "displayDetail vis app =
     (let v = (if vis then ''visible'' else ''hidden'')
      in app\<lparr>detail := (detail app)\<lparr>visibility := v\<rparr>,
              effects := effects app @ [DetailVisibility v]\<rparr>)"

definition toggleDetail :: "App \<Rightarrow> App" where
  "toggleDetail app =
     (let state = visibility (detail app);
          v = (if state = ''visible'' then ''hidden'' else ''visible'')
      in app\<lparr>detail := (detail app)\<lparr>visibility := v\<rparr>,
              effects := effects app @ [DetailVisibility v]\<rparr>)"

text \<open>The two click listeners that \<open>initialize\<close> installs.\<close>

definition captionClick :: "App \<Rightarrow> App" where
  "captionClick app = toggleDetail app"

definition detailClick :: "App \<Rightarrow> App" where
  "detailClick app = displayDetail False app"

text \<open>\<^verbatim>\<open>this.caption!.innerText = ...\<close> and \<^verbatim>\<open>this.detail!.innerText = ...\<close>\<close>

definition setCaptionText :: "string \<Rightarrow> App \<Rightarrow> App" where
  "setCaptionText s app =
     app\<lparr>caption := (caption app)\<lparr>innerText := s\<rparr>,
         effects := effects app @ [CaptionText s]\<rparr>"

definition setDetailText :: "string \<Rightarrow> App \<Rightarrow> App" where
  "setDetailText s app =
     app\<lparr>detail := (detail app)\<lparr>innerText := s\<rparr>,
         effects := effects app @ [DetailText s]\<rparr>"

text \<open>\<open>log\<close> prepends a new child to the log element.\<close>

definition log :: "log_entry \<Rightarrow> App \<Rightarrow> App" where
  "log entry app =
     app\<lparr>logElement := entry # logElement app,
         effects := effects app @ [Logged entry]\<rparr>"

section \<open>The selection controller\<close>

text \<open>\<^verbatim>\<open>(mesh.material as THREE.Material).opacity = v\<close> and \<^verbatim>\<open>this.selected = m\<close>\<close>

definition setOpacity :: "material_ref \<Rightarrow> number \<Rightarrow> App \<Rightarrow> App" where
  "setOpacity m v app =
     app\<lparr>opacityOf := (opacityOf app)(m := v),
         effects := effects app @ [OpacitySet m v]\<rparr>"

definition setSelected :: "mesh_ref option \<Rightarrow> App \<Rightarrow> App" where
  "setSelected s app = app\<lparr>selected := s, effects := effects app @ [SelectedSet s]\<rparr>"

definition deselect :: "App \<Rightarrow> App" where
  "deselect app =
     (let app1 = (case selected app of
                    Some m \<Rightarrow> setOpacity (materialOf app m) 0 app
                  | None \<Rightarrow> app);
          app2 = setSelected None app1
      in displayCaption False app2)"

text \<open>The loop of \<open>findFigure\<close> over \<^verbatim>\<open>this.muralData.figures\<close>.\<close>

fun findFigure_loop :: "FigureData list \<Rightarrow> string \<Rightarrow> FigureData option" where
  "findFigure_loop [] t = None"
| "findFigure_loop (currentFigureData # rest) t =
     (if tag currentFigureData = t then Some currentFigureData
      else findFigure_loop rest t)"

text \<open>
  \<open>findFigure\<close> writes nothing. Reading \<^verbatim>\<open>.figures\<close> of an \<^verbatim>\<open>undefined\<close>
  \<open>muralData\<close> throws a \<^verbatim>\<open>TypeError\<close>.
\<close>

definition findFigure :: "App \<Rightarrow> string \<Rightarrow> error + FigureData option" where
  "findFigure app t =
     (case muralData app of
        None \<Rightarrow> Inl TypeError
      | Some md \<Rightarrow> Inr (findFigure_loop (figures md) t))"

text \<open>
  \<open>update\<close>, once per frame. Its argument is the list that
  \<^verbatim>\<open>raycaster.intersectObjects(this.scene.children)\<close> returned for the frame.
\<close>

definition update :: "App \<Rightarrow> Intersection list \<Rightarrow> outcome" where
  "update app intersects =
     (if length intersects > 0 then
        (let newSelection = object (intersects ! (length intersects - 1))
         in if Some newSelection \<noteq> selected app then
              (let app1 = deselect app;
                   app2 = setSelected (Some (object (intersects ! (length intersects - 1)))) app1;
                   app3 = setOpacity (materialOf app2 newSelection) 0.25 app2;
                   app4 = log (LogText (nameOf app3 (object (intersects ! (length intersects - 1))))) app3;
                   t = nameOf app4 (object (intersects ! (length intersects - 1)))
               in case findFigure app4 t of
                    Inl e \<Rightarrow> Threw e app4
                  | Inr figureData \<Rightarrow>
                      (let app5 = log (LogJson figureData) app4
                       in case figureData of
                            None \<Rightarrow> Returned app5
                          | Some fd \<Rightarrow>
                              (let app6 = displayCaption True app5;
                                   app7 = setCaptionText (fig_caption fd) app6;
                                   app8 = setDetailText (fig_detail fd) app7
                               in Returned (log (LogJson (Some fd)) app8))))
            else Returned app)
      else Returned (deselect app))"

section \<open>The anchor controller\<close>

text \<open>
  The operator \<^verbatim>\<open>in\<close> also finds the properties an object inherits. The fetched
  object is the result of \<^verbatim>\<open>response.json()\<close>, whose prototype is
  \<^verbatim>\<open>Object.prototype\<close>; these are the property names of \<^verbatim>\<open>Object.prototype\<close>.
\<close>

definition Object_prototype_keys :: "string list" where
  "Object_prototype_keys =
     [''constructor'', ''hasOwnProperty'', ''isPrototypeOf'', ''propertyIsEnumerable'',
      ''toLocaleString'', ''toString'', ''valueOf'', ''__proto__'',
      ''__defineGetter__'', ''__defineSetter__'', ''__lookupGetter__'', ''__lookupSetter__'']"

definition js_in :: "string \<Rightarrow> WayspotStore \<Rightarrow> bool" where
  "js_in k store = (k \<in> dom store \<or> k \<in> set Object_prototype_keys)"

text \<open>
  \<open>applyOffset\<close>. \<^verbatim>\<open>wayspotName in this.wayspotData\<close> throws a \<^verbatim>\<open>TypeError\<close> when
  \<open>wayspotData\<close> is \<^verbatim>\<open>undefined\<close>. Where the name is found only on the prototype,
  \<^verbatim>\<open>data.offset\<close> is \<^verbatim>\<open>undefined\<close> and reading \<^verbatim>\<open>data.offset.position\<close> throws
  before anything is written.
\<close>

definition applyOffset :: "App \<Rightarrow> string \<Rightarrow> outcome" where
  "applyOffset app wayspotName =
     (case wayspotData app of
        None \<Rightarrow> Threw TypeError app
      | Some store \<Rightarrow>
          if js_in wayspotName store then
            (case store wayspotName of
               None \<Rightarrow> Threw TypeError app
             | Some data \<Rightarrow>
                 Returned (app\<lparr>rootContainer := (rootContainer app)
                    \<lparr>position := position (offset data),
                     rotation := rotation (offset data),
                     scale := scale (offset data)\<rparr>\<rparr>))
          else Returned app)"

text \<open>The two assignments to \<open>origin\<close> that the three handlers share.\<close>

definition copyPose :: "TrackingEvent \<Rightarrow> App \<Rightarrow> App" where
  "copyPose ev app =
     app\<lparr>origin := (origin app)\<lparr>origin_position := ev_position ev,
                                origin_quaternion := ev_rotation ev\<rparr>\<rparr>"

definition setVisible :: "bool \<Rightarrow> App \<Rightarrow> App" where
  "setVisible v app = app\<lparr>rootContainer := (rootContainer app)\<lparr>visible := v\<rparr>\<rparr>"

definition wayspotFound :: "App \<Rightarrow> TrackingEvent \<Rightarrow> outcome" where
  "wayspotFound app ev =
     (let app1 = log (LogText (''WAYSPOT FOUND:'' @ ev_name ev)) app;
          app2 = log (LogPosition (ev_position ev)) app1
      in case applyOffset app2 (ev_name ev) of
           Threw e app3 \<Rightarrow> Threw e app3
         | Returned app3 \<Rightarrow> Returned (setVisible True (copyPose ev app3)))"

definition wayspotUpdated :: "App \<Rightarrow> TrackingEvent \<Rightarrow> outcome" where
  "wayspotUpdated app ev =
     (let app1 = log (LogText ''WAYSPOT UPDATED'') app
      in case applyOffset app1 (ev_name ev) of
           Threw e app2 \<Rightarrow> Threw e app2
         | Returned app2 \<Rightarrow> Returned (setVisible True (copyPose ev app2)))"

definition wayspotLost :: "App \<Rightarrow> TrackingEvent \<Rightarrow> outcome" where
  "wayspotLost app ev =
     (let app1 = log (LogText ''WAYSPOT LOST'') app
      in case applyOffset app1 (ev_name ev) of
           Threw e app2 \<Rightarrow> Threw e app2
         | Returned app2 \<Rightarrow> Returned (setVisible False (copyPose ev app2)))"

section \<open>The state that \<open>initialize\<close> leaves\<close>

text \<open>
  \<open>initialize\<close> is given the scene (here the store of its meshes and materials), the
  two elements found in the document and \<open>arMode\<close>. It hides caption and detail,
  starts the two fetches (whose callbacks have not run when it returns) and creates
  \<open>origin\<close> and \<open>rootContainer\<close> as new groups: position zero, no rotation, scale one,
  visible unless \<open>arMode\<close>.
\<close>

definition newGroup :: Group where
  "newGroup = \<lparr>position = Vector3 0 0 0, rotation = Euler 0 0 0, scale = Vector3 1 1 1,
               visible = True\<rparr>"

definition initialize ::
  "(mesh_ref \<Rightarrow> string) \<Rightarrow> (mesh_ref \<Rightarrow> material_ref) \<Rightarrow> (material_ref \<Rightarrow> number) \<Rightarrow>
   HTMLElement \<Rightarrow> HTMLElement \<Rightarrow> bool \<Rightarrow> App" where
  "initialize names materials opacities captionElement detailElement arMode =
     (let app0 = \<lparr>caption = captionElement, detail = detailElement, logElement = [],
                  nameOf = names, materialOf = materials, opacityOf = opacities,
                  origin = \<lparr>origin_position = Vector3 0 0 0,
                            origin_quaternion = Quaternion 0 0 0 1\<rparr>,
                  rootContainer = newGroup,
                  selected = None, wayspotData = None, muralData = None, effects = []\<rparr>;
          app1 = displayCaption False app0;
          app2 = displayDetail False app1
      in if arMode then setVisible False app2 else app2)"

section \<open>Notions used to state the properties\<close>

text \<open>
  The tracking collaborator (outside the sources) calls one of the three handlers
  for each event it delivers.
\<close>

datatype event_kind = Found | Updated | Lost

fun handleEvent :: "App \<Rightarrow> event_kind \<Rightarrow> TrackingEvent \<Rightarrow> outcome" where
  "handleEvent app Found ev = wayspotFound app ev"
| "handleEvent app Updated ev = wayspotUpdated app ev"
| "handleEvent app Lost ev = wayspotLost app ev"

text \<open>
  The calibration entry of a wayspot name: the own property of that name in the
  fetched object, and none while nothing has been fetched.
\<close>

definition calibration :: "App \<Rightarrow> string \<Rightarrow> WayspotEntry option" where
  "calibration app w = (case wayspotData app of None \<Rightarrow> None | Some store \<Rightarrow> store w)"

text \<open>What the three handlers do after \<open>applyOffset\<close>, when it has returned.\<close>

definition finish :: "bool \<Rightarrow> TrackingEvent \<Rightarrow> outcome \<Rightarrow> outcome" where
  "finish v ev r =
     (case r of
        Threw e app \<Rightarrow> Threw e app
      | Returned app \<Rightarrow> Returned (setVisible v (copyPose ev app)))"

text \<open>
  The two parts of the branch of \<open>update\<close> that selects a new mesh: the writes up to
  the call of \<open>findFigure\<close>, and the writes after it has returned \<open>figureData\<close>.
\<close>

definition highlight :: "mesh_ref \<Rightarrow> App \<Rightarrow> App" where
  "highlight b app =
     log (LogText (nameOf app b)) (setOpacity (materialOf app b) 0.25 (setSelected (Some b) app))"

definition present :: "FigureData option \<Rightarrow> App \<Rightarrow> App" where
  "present figureData app =
     (case figureData of
        None \<Rightarrow> log (LogJson None) app
      | Some fd \<Rightarrow> log (LogJson (Some fd)) (setDetailText (fig_detail fd)
          (setCaptionText (fig_caption fd) (displayCaption True (log (LogJson (Some fd)) app)))))"

text \<open>The entries that the selecting branch adds to the history from \<open>findFigure\<close> on.\<close>

definition resolve_effects :: "App \<Rightarrow> mesh_ref \<Rightarrow> effect list" where
  "resolve_effects app b =
     (case findFigure app (nameOf app b) of
        Inl e \<Rightarrow> []
      | Inr None \<Rightarrow> [Logged (LogJson None)]
      | Inr (Some fd) \<Rightarrow>
          [Logged (LogJson (Some fd)), CaptionVisibility ''visible'',
           CaptionText (fig_caption fd), DetailText (fig_detail fd),
           Logged (LogJson (Some fd))])"

text \<open>
  Consecutive frames: the render loop (outside the sources) calls \<open>update\<close> once per
  frame, each time on the state the previous call left.
\<close>

definition frames :: "App \<Rightarrow> Intersection list list \<Rightarrow> App" where
  "frames app fs = foldl (\<lambda>a f. state_of (update a f)) app fs"

subsection \<open>A concrete mural\<close>

definition example_mural :: MuralData where
  "example_mural = \<lparr>mural_scale = 1, figures =
     [\<lparr>tag = ''fig1'', fig_caption = ''A'', fig_detail = ''Long A''\<rparr>,
      \<lparr>tag = ''fig2'', fig_caption = ''B'', fig_detail = ''Long B''\<rparr>]\<rparr>"

definition example_store :: WayspotStore where
  "example_store = [''wp1'' \<mapsto> \<lparr>offset =
     \<lparr>position = Vector3 1 0 0, rotation = Euler 0 0 0, scale = Vector3 1 1 1\<rparr>\<rparr>]"

text \<open>Mesh 1 is named \<open>fig1\<close>, mesh 2 \<open>fig2\<close>, every other mesh \<open>fig3\<close>; mesh \<open>m\<close> has material \<open>m\<close>.\<close>

definition example_names :: "mesh_ref \<Rightarrow> string" where
  "example_names m = (if m = 1 then ''fig1'' else if m = 2 then ''fig2'' else ''fig3'')"

definition example_start :: App where
  "example_start =
     initialize example_names (\<lambda>m. m) (\<lambda>m. 0)
       \<lparr>visibility = [], innerText = []\<rparr> \<lparr>visibility = [], innerText = []\<rparr> True"

text \<open>The state once both fetches have delivered.\<close>

definition example_loaded :: App where
  "example_loaded = example_start\<lparr>wayspotData := Some example_store,
                                  muralData := Some example_mural\<rparr>"

definition hit :: "number \<Rightarrow> mesh_ref \<Rightarrow> Intersection" where
  "hit d m = \<lparr>distance = d, object = m\<rparr>"

definition example_event :: "string \<Rightarrow> TrackingEvent" where
  "example_event w = \<lparr>ev_name = w, ev_position = Vector3 0 2 0, ev_rotation = Quaternion 0 0 0 1\<rparr>"

text \<open>
  Mesh 1 is selected and its caption shown; then the caption is clicked, which
  discloses the detail.
\<close>

definition example_disclosed :: App where
  "example_disclosed = captionClick (state_of (update example_loaded [hit 3 1]))"

section \<open>Auxiliary facts\<close>

lemmas ui_defs = displayCaption_def displayDetail_def toggleDetail_def captionClick_def
  detailClick_def setCaptionText_def setDetailText_def log_def setOpacity_def setSelected_def
  Let_def

lemma applyOffset_present:
  "calibration app w = Some e \<Longrightarrow>
   applyOffset app w = Returned (app\<lparr>rootContainer := (rootContainer app)
      \<lparr>position := position (offset e), rotation := rotation (offset e),
       scale := scale (offset e)\<rparr>\<rparr>)"
  by (auto simp: calibration_def applyOffset_def js_in_def split: option.splits)

lemma applyOffset_absent:
  "calibration app w = None \<Longrightarrow> state_of (applyOffset app w) = app"
  by (auto simp: calibration_def applyOffset_def split: option.splits)

lemma calibration_log [simp]: "calibration (log x app) w = calibration app w"
  by (simp add: calibration_def log_def)

lemma rootContainer_log [simp]: "rootContainer (log x app) = rootContainer app"
  by (simp add: log_def)

lemma transform_finish:
  "position (rootContainer (state_of (finish v ev r))) = position (rootContainer (state_of r))"
  "rotation (rootContainer (state_of (finish v ev r))) = rotation (rootContainer (state_of r))"
  "scale (rootContainer (state_of (finish v ev r))) = scale (rootContainer (state_of r))"
  by (cases r; simp add: finish_def copyPose_def setVisible_def)+

lemma handler_finish:
  "wayspotFound app ev =
     finish True ev (applyOffset (log (LogPosition (ev_position ev))
        (log (LogText (''WAYSPOT FOUND:'' @ ev_name ev)) app)) (ev_name ev))"
  "wayspotUpdated app ev =
     finish True ev (applyOffset (log (LogText ''WAYSPOT UPDATED'') app) (ev_name ev))"
  "wayspotLost app ev =
     finish False ev (applyOffset (log (LogText ''WAYSPOT LOST'') app) (ev_name ev))"
  by (simp_all add: wayspotFound_def wayspotUpdated_def wayspotLost_def Let_def finish_def)

lemma last_index:
  "xs \<noteq> [] \<Longrightarrow> xs ! (length xs - 1) = last xs"
  "xs \<noteq> [] \<Longrightarrow> xs ! (length xs - Suc 0) = last xs"
  by (simp_all add: last_conv_nth)

lemma deselect_frame [simp]:
  "nameOf (deselect app) = nameOf app"
  "materialOf (deselect app) = materialOf app"
  "muralData (deselect app) = muralData app"
  "wayspotData (deselect app) = wayspotData app"
  "detail (deselect app) = detail app"
  "rootContainer (deselect app) = rootContainer app"
  "selected (deselect app) = None"
  "visibility (caption (deselect app)) = ''hidden''"
  "innerText (caption (deselect app)) = innerText (caption app)"
  by (simp_all add: deselect_def ui_defs split: option.splits)

lemma effects_deselect:
  "effects (deselect app) = effects app
     @ (case selected app of Some a \<Rightarrow> [OpacitySet (materialOf app a) 0] | None \<Rightarrow> [])
     @ [SelectedSet None, CaptionVisibility ''hidden'']"
  by (simp add: deselect_def ui_defs split: option.splits)

lemma highlight_frame [simp]:
  "nameOf (highlight b app) = nameOf app"
  "materialOf (highlight b app) = materialOf app"
  "muralData (highlight b app) = muralData app"
  "detail (highlight b app) = detail app"
  "caption (highlight b app) = caption app"
  "selected (highlight b app) = Some b"
  "opacityOf (highlight b app) = (opacityOf app)(materialOf app b := 1/4)"
  "effects (highlight b app) = effects app
      @ [SelectedSet (Some b), OpacitySet (materialOf app b) (1/4), Logged (LogText (nameOf app b))]"
  by (simp_all add: highlight_def ui_defs)

lemma present_frame [simp]:
  "nameOf (present r app) = nameOf app"
  "materialOf (present r app) = materialOf app"
  "opacityOf (present r app) = opacityOf app"
  "muralData (present r app) = muralData app"
  "selected (present r app) = selected app"
  "visibility (detail (present r app)) = visibility (detail app)"
  by (simp_all add: present_def ui_defs split: option.splits)

lemma present_None [simp]:
  "caption (present None app) = caption app"
  "detail (present None app) = detail app"
  "effects (present None app) = effects app @ [Logged (LogJson None)]"
  by (simp_all add: present_def ui_defs)

lemma present_Some [simp]:
  "visibility (caption (present (Some fd) app)) = ''visible''"
  "innerText (caption (present (Some fd) app)) = fig_caption fd"
  "innerText (detail (present (Some fd) app)) = fig_detail fd"
  "effects (present (Some fd) app) = effects app @
     [Logged (LogJson (Some fd)), CaptionVisibility ''visible'', CaptionText (fig_caption fd),
      DetailText (fig_detail fd), Logged (LogJson (Some fd))]"
  by (simp_all add: present_def ui_defs)

lemma update_empty: "update app [] = Returned (deselect app)"
  by (simp add: update_def)

lemma update_same:
  "xs \<noteq> [] \<Longrightarrow> selected app = Some (object (last xs)) \<Longrightarrow> update app xs = Returned app"
  by (simp add: update_def last_index)

lemma update_change:
  assumes "xs \<noteq> []" and "selected app \<noteq> Some (object (last xs))"
  shows "update app xs =
     (case muralData app of
        None \<Rightarrow> Threw TypeError (highlight (object (last xs)) (deselect app))
      | Some md \<Rightarrow> Returned (present (findFigure_loop (figures md) (nameOf app (object (last xs))))
                       (highlight (object (last xs)) (deselect app))))"
proof -
  have ne: "Some (object (last xs)) \<noteq> selected app" using assms(2) by auto
  show ?thesis using assms(1) ne
    by (simp add: update_def last_index findFigure_def highlight_def present_def ui_defs
        split: option.splits)
qed

lemma effects_update:
  assumes "xs \<noteq> []" and "selected app \<noteq> Some b" and "object (last xs) = b"
  shows "effects (state_of (update app xs)) =
     effects app
       @ (case selected app of Some a \<Rightarrow> [OpacitySet (materialOf app a) 0] | None \<Rightarrow> [])
       @ [SelectedSet None, CaptionVisibility ''hidden'']
       @ [SelectedSet (Some b), OpacitySet (materialOf app b) (1/4),
          Logged (LogText (nameOf app b))]
       @ resolve_effects app b"
proof -
  have "selected app \<noteq> Some (object (last xs))" using assms by simp
  from update_change [OF assms(1) this] show ?thesis
    using assms(3)
    by (cases "muralData app")
       (auto simp: effects_deselect resolve_effects_def findFigure_def split: option.splits)
qed

lemma selected_update:
  "xs \<noteq> [] \<Longrightarrow> selected (state_of (update app xs)) = Some (object (last xs))"
  by (cases "selected app = Some (object (last xs))")
     (auto simp: update_same update_change split: option.splits)

lemma update_frame [simp]:
  "materialOf (state_of (update app xs)) = materialOf app"
  "nameOf (state_of (update app xs)) = nameOf app"
  "muralData (state_of (update app xs)) = muralData app"
proof -
  consider "xs = []" | "xs \<noteq> []" "selected app = Some (object (last xs))"
    | "xs \<noteq> []" "selected app \<noteq> Some (object (last xs))" by blast
  then have "materialOf (state_of (update app xs)) = materialOf app
     \<and> nameOf (state_of (update app xs)) = nameOf app
     \<and> muralData (state_of (update app xs)) = muralData app"
    by cases (auto simp: update_empty update_same update_change split: option.splits)
  then show "materialOf (state_of (update app xs)) = materialOf app"
    "nameOf (state_of (update app xs)) = nameOf app"
    "muralData (state_of (update app xs)) = muralData app" by simp_all
qed

lemma hit_sel [simp]: "object (hit d m) = m" "distance (hit d m) = d"
  by (simp_all add: hit_def)

lemma findFigure_loop_find: "findFigure_loop fs t = find (\<lambda>f. tag f = t) fs"
  by (induction fs) auto

lemma frames_same:
  assumes "\<forall>f\<in>set fs. f \<noteq> [] \<and> object (last f) = b" and "selected app = Some b"
  shows "frames app fs = app"
  using assms unfolding frames_def
  by (induction fs) (simp_all add: update_same)

lemma frames_Cons: "frames app (f # fs) = frames (state_of (update app f)) fs"
  by (simp add: frames_def)

lemma count_resolve_effects:
  "count_list (resolve_effects app b) (SelectedSet s) = 0"
  "count_list (resolve_effects app b) (OpacitySet m v) = 0"
  by (simp_all add: resolve_effects_def split: sum.splits option.splits)

lemma initialize_unloaded [simp]:
  "wayspotData (initialize n m opac c d ar) = None"
  "muralData (initialize n m opac c d ar) = None"
  "selected (initialize n m opac c d ar) = None"
  "visible (rootContainer (initialize n m opac c d ar)) = (\<not> ar)"
  "position (rootContainer (initialize n m opac c d ar)) = Vector3 0 0 0"
  "rotation (rootContainer (initialize n m opac c d ar)) = Euler 0 0 0"
  "scale (rootContainer (initialize n m opac c d ar)) = Vector3 1 1 1"
  "visibility (caption (initialize n m opac c d ar)) = ''hidden''"
  "visibility (detail (initialize n m opac c d ar)) = ''hidden''"
  by (simp_all add: initialize_def newGroup_def setVisible_def ui_defs)

lemma applyOffset_unloaded:
  "wayspotData app = None \<Longrightarrow> applyOffset app w = Threw TypeError app"
  by (simp add: applyOffset_def)

lemma handleEvent_unloaded:
  assumes "wayspotData app = None"
  shows "\<not> returns (handleEvent app k ev)"
    and "visible (rootContainer (state_of (handleEvent app k ev))) = visible (rootContainer app)"
  using assms
  by (cases k; simp add: handler_finish finish_def applyOffset_unloaded log_def)+

lemma opacityOf_deselect:
  "selected app = Some a \<Longrightarrow> opacityOf (deselect app) = (opacityOf app)(materialOf app a := 0)"
  by (simp add: deselect_def ui_defs)

lemma findFigure_frame [simp]:
  "findFigure (deselect app) t = findFigure app t"
  "findFigure (highlight b app) t = findFigure app t"
  by (simp_all add: findFigure_def)

lemma state_update_change:
  assumes "xs \<noteq> []" and "selected app \<noteq> Some (object (last xs))"
  shows "state_of (update app xs) =
     (case findFigure app (nameOf app (object (last xs))) of
        Inl e \<Rightarrow> highlight (object (last xs)) (deselect app)
      | Inr figureData \<Rightarrow> present figureData (highlight (object (last xs)) (deselect app)))"
  using update_change [OF assms]
  by (simp add: findFigure_def split: option.splits)

lemma opacityOf_update_change:
  assumes "xs \<noteq> []" and "selected app = Some a" and "object (last xs) = b" and "a \<noteq> b"
  shows "opacityOf (state_of (update app xs)) =
           (opacityOf app)(materialOf app a := 0, materialOf app b := 1/4)"
proof -
  have ne: "selected app \<noteq> Some (object (last xs))" using assms by simp
  show ?thesis
    unfolding state_update_change [OF assms(1) ne]
    using assms(2,3)
    by (simp add: opacityOf_deselect split: sum.splits)
qed

lemma caption_update_change:
  assumes "xs \<noteq> []" and "selected app \<noteq> Some (object (last xs))"
  shows "visibility (caption (state_of (update app xs))) =
           (case findFigure app (nameOf app (object (last xs))) of
              Inr (Some fd) \<Rightarrow> ''visible'' | _ \<Rightarrow> ''hidden'')"
    and "innerText (caption (state_of (update app xs))) =
           (case findFigure app (nameOf app (object (last xs))) of
              Inr (Some fd) \<Rightarrow> fig_caption fd | _ \<Rightarrow> innerText (caption app))"
    and "innerText (detail (state_of (update app xs))) =
           (case findFigure app (nameOf app (object (last xs))) of
              Inr (Some fd) \<Rightarrow> fig_detail fd | _ \<Rightarrow> innerText (detail app))"
  unfolding state_update_change [OF assms]
  by (simp_all split: sum.splits option.splits)

lemmas example_defs = example_disclosed_def example_loaded_def example_start_def
  initialize_def example_mural_def example_store_def example_names_def example_event_def
  hit_def newGroup_def setVisible_def copyPose_def

lemmas code_defs = update_def deselect_def findFigure_def applyOffset_def js_in_def
  wayspotFound_def wayspotUpdated_def wayspotLost_def calibration_def
  Object_prototype_keys_def

subsection \<open>Calibration offset\<close>

text \<open>
  Claim C1. For every tracking event (Found, Updated or Lost) with wayspot name \<open>w\<close>
  and every prior state: if \<open>w\<close> has an entry in the calibration store, then after
  the handler the position, rotation and scale of the content container are the
  fields of that entry's offset; if \<open>w\<close> has no entry (also while nothing has been
  fetched), they are what they were before. The container that \<open>initialize\<close>
  creates has the identity transform.
\<close>
theorem offset_follows_calibration:
  "(calibration app (ev_name ev) = Some e \<longrightarrow>
      position (rootContainer (state_of (handleEvent app k ev))) = position (offset e)
    \<and> rotation (rootContainer (state_of (handleEvent app k ev))) = rotation (offset e)
    \<and> scale (rootContainer (state_of (handleEvent app k ev))) = scale (offset e))
 \<and> (calibration app (ev_name ev) = None \<longrightarrow>
      position (rootContainer (state_of (handleEvent app k ev))) = position (rootContainer app)
    \<and> rotation (rootContainer (state_of (handleEvent app k ev))) = rotation (rootContainer app)
    \<and> scale (rootContainer (state_of (handleEvent app k ev))) = scale (rootContainer app))
 \<and> position (rootContainer (initialize n m opac c d ar)) = Vector3 0 0 0
 \<and> rotation (rootContainer (initialize n m opac c d ar)) = Euler 0 0 0
 \<and> scale (rootContainer (initialize n m opac c d ar)) = Vector3 1 1 1"
  by (cases k)
     (simp_all add: handler_finish transform_finish applyOffset_present applyOffset_absent)

theorem offset_follows_calibration_witness:
  "calibration example_loaded (ev_name (example_event ''wp1''))
     = Some \<lparr>offset = \<lparr>position = Vector3 1 0 0, rotation = Euler 0 0 0, scale = Vector3 1 1 1\<rparr>\<rparr>
   \<and> position (rootContainer (state_of (handleEvent example_loaded Found (example_event ''wp1''))))
     = Vector3 1 0 0
   \<and> calibration example_loaded (ev_name (example_event ''wp2'')) = None
   \<and> position (rootContainer (state_of (handleEvent example_loaded Lost (example_event ''wp2''))))
     = Vector3 0 0 0"
  using offset_follows_calibration [of example_loaded "example_event ''wp1''"
      "\<lparr>offset = \<lparr>position = Vector3 1 0 0, rotation = Euler 0 0 0, scale = Vector3 1 1 1\<rparr>\<rparr>" Found]
    offset_follows_calibration [of example_loaded "example_event ''wp2''" _ Lost]
  by (simp add: example_defs calibration_def ui_defs)

subsection \<open>Events and frames before the fetches have delivered\<close>

text \<open>
  Claim C2 says that a tracking event handler or a frame update called while
  \<open>wayspotData\<close> or \<open>muralData\<close> is still unloaded completes without throwing. In
  the state that \<open>initialize\<close> leaves, each of the three handlers throws (the
  operator \<^verbatim>\<open>in\<close> is applied to \<^verbatim>\<open>undefined\<close>), and so does a frame update whose
  hit test is not empty (\<open>findFigure\<close> reads \<^verbatim>\<open>.figures\<close> of \<^verbatim>\<open>undefined\<close>).
\<close>
theorem handlers_throw_before_fetch:
  "\<not> returns (handleEvent (initialize n m opac c d ar) k ev)
   \<and> \<not> returns (update (initialize n m opac c d ar) (x # xs))"
  by (simp add: handleEvent_unloaded update_change)

subsection \<open>Visibility of the content root\<close>

text \<open>
  Claim C8 says that the content root is visible after any Found or Updated event
  and invisible after any Lost event. While \<open>wayspotData\<close> is unloaded the handler
  throws in \<open>applyOffset\<close>, before the assignment to \<open>visible\<close>: started in AR mode
  the root is still invisible after Found and after Updated, and started outside AR
  mode it is still visible after Lost.
\<close>
theorem visibility_not_set_before_fetch:
  "\<not> visible (rootContainer (state_of (handleEvent (initialize n m opac c d True) Found ev)))
 \<and> \<not> visible (rootContainer (state_of (handleEvent (initialize n m opac c d True) Updated ev)))
 \<and> visible (rootContainer (state_of (handleEvent (initialize n m opac c d False) Lost ev)))"
  by (simp add: handleEvent_unloaded del: handleEvent.simps)

text \<open>
  Once the calibration store is loaded, and unless the wayspot name is found only on
  \<^verbatim>\<open>Object.prototype\<close>, every handler returns, with the root visible after Found and
  Updated and invisible after Lost, whether or not the name has an entry.
\<close>

lemma visible_after_event_loaded:
  assumes "wayspotData app = Some store"
      and "ev_name ev \<in> dom store \<or> ev_name ev \<notin> set Object_prototype_keys"
  shows "returns (handleEvent app k ev)
       \<and> visible (rootContainer (state_of (handleEvent app k ev))) = (k \<noteq> Lost)"
  using assms
  by (cases k)
     (auto simp: handler_finish finish_def applyOffset_def js_in_def log_def setVisible_def
        copyPose_def)


text \<open>
  A name found only on \<^verbatim>\<open>Object.prototype\<close> has no calibration entry, and its
  handler throws before the assignment to \<open>visible\<close>.
\<close>

lemma inherited_name_throws:
  "calibration example_loaded ''constructor'' = None
   \<and> \<not> returns (handleEvent example_loaded Found (example_event ''constructor''))
   \<and> \<not> visible (rootContainer (state_of
          (handleEvent example_loaded Found (example_event ''constructor''))))"
  by (simp add: example_defs code_defs ui_defs)

subsection \<open>The caption and detail elements under selection changes\<close>

text \<open>
  Claim C3 says that deselection hides both the caption and the detail element, so
  that a tap on the detail afterwards changes nothing visible. In the state where
  mesh 1 is selected and its detail disclosed, a frame without a hit hides the
  caption and leaves the detail visible, and the tap on the detail then hides it.
\<close>
theorem hide_keeps_detail_counterexample:
  "update example_disclosed [] = Returned (deselect example_disclosed)
   \<and> visibility (caption (deselect example_disclosed)) = ''hidden''
   \<and> visibility (detail (deselect example_disclosed)) = ''visible''
   \<and> visibility (detail (deselect example_disclosed)) \<noteq> ''hidden''
   \<and> visibility (detail (detailClick (deselect example_disclosed)))
       \<noteq> visibility (detail (deselect example_disclosed))"
  by (simp add: update_empty)
     (simp add: example_defs code_defs ui_defs)

text \<open>
  Claim C3 as amended. From any prior state, deselection (which is what a frame
  without a hit does) hides the caption, keeps its text, clears the selection and
  leaves the detail element as it was; a tap on the detail afterwards hides the
  detail element, keeps its text and leaves the caption as it was.
\<close>

theorem hide_hides_caption_only:
  "update app [] = Returned (deselect app)
   \<and> visibility (caption (deselect app)) = ''hidden''
   \<and> innerText (caption (deselect app)) = innerText (caption app)
   \<and> selected (deselect app) = None
   \<and> detail (deselect app) = detail app
   \<and> visibility (detail (detailClick (deselect app))) = ''hidden''
   \<and> innerText (detail (detailClick (deselect app))) = innerText (detail app)
   \<and> caption (detailClick (deselect app)) = caption (deselect app)"
  by (simp add: update_empty) (simp add: detailClick_def displayDetail_def Let_def)

text \<open>
  Claim C4 says that a change of selection to an item whose figure is found resets
  the detail element to hidden. In the state where mesh 1 is selected and its detail
  disclosed, a frame that picks mesh 2 leaves the detail element visible, now with
  the detail text of the second figure.
\<close>
theorem select_keeps_detail_counterexample:
  "selected example_disclosed = Some 1
   \<and> visibility (detail example_disclosed) = ''visible''
   \<and> findFigure example_disclosed (nameOf example_disclosed (object (last [hit 1 2])))
       = Inr (Some \<lparr>tag = ''fig2'', fig_caption = ''B'', fig_detail = ''Long B''\<rparr>)
   \<and> returns (update example_disclosed [hit 1 2])
   \<and> selected (state_of (update example_disclosed [hit 1 2])) = Some 2
   \<and> innerText (detail (state_of (update example_disclosed [hit 1 2]))) = ''Long B''
   \<and> visibility (detail (state_of (update example_disclosed [hit 1 2]))) = ''visible''
   \<and> visibility (detail (state_of (update example_disclosed [hit 1 2]))) \<noteq> ''hidden''"
  by (simp add: example_defs code_defs ui_defs)

text \<open>
  Claim C4 as amended. When a frame selects a new mesh whose figure is found,
  \<open>update\<close> returns, the caption is visible with the caption of the figure, the
  detail element holds the detail text of the figure, and the visibility of the
  detail element is what it was before the frame.
\<close>

theorem select_keeps_detail_visibility:
  assumes "intersects \<noteq> []"
      and "selected app \<noteq> Some (object (last intersects))"
      and "findFigure app (nameOf app (object (last intersects))) = Inr (Some fd)"
  shows "returns (update app intersects)
       \<and> visibility (caption (state_of (update app intersects))) = ''visible''
       \<and> innerText (caption (state_of (update app intersects))) = fig_caption fd
       \<and> innerText (detail (state_of (update app intersects))) = fig_detail fd
       \<and> visibility (detail (state_of (update app intersects))) = visibility (detail app)"
  using assms(3) update_change [OF assms(1,2)]
  by (auto simp: findFigure_def split: option.splits)

theorem select_keeps_detail_visibility_witness:
  "[hit 1 2] \<noteq> []
   \<and> selected example_disclosed \<noteq> Some (object (last [hit 1 2]))
   \<and> returns (update example_disclosed [hit 1 2])
   \<and> visibility (caption (state_of (update example_disclosed [hit 1 2]))) = ''visible''
   \<and> innerText (caption (state_of (update example_disclosed [hit 1 2]))) = ''B''
   \<and> innerText (detail (state_of (update example_disclosed [hit 1 2]))) = ''Long B''
   \<and> visibility (detail (state_of (update example_disclosed [hit 1 2])))
       = visibility (detail example_disclosed)"
proof -
  have h1: "[hit 1 2] \<noteq> []" by simp
  have h2: "selected example_disclosed \<noteq> Some (object (last [hit 1 2]))"
    by (simp add: example_defs code_defs ui_defs)
  have h3: "findFigure example_disclosed (nameOf example_disclosed (object (last [hit 1 2])))
       = Inr (Some \<lparr>tag = ''fig2'', fig_caption = ''B'', fig_detail = ''Long B''\<rparr>)"
    by (simp add: example_defs code_defs ui_defs)
  show ?thesis
    using h1 h2 select_keeps_detail_visibility [OF h1 h2 h3] by simp
qed

subsection \<open>The pick of a frame\<close>

text \<open>
  Claim C5. For every non-empty hit-test result, after \<open>update\<close> the selection is
  the object of the last entry of the list; it is not the object of the first entry
  whenever the two differ; and in a list ordered by increasing distance the last
  entry is a farthest one.
\<close>
theorem update_picks_last:
  assumes "intersects \<noteq> []"
  shows "selected (state_of (update app intersects)) = Some (object (last intersects))
       \<and> (object (hd intersects) \<noteq> object (last intersects) \<longrightarrow>
            selected (state_of (update app intersects)) \<noteq> Some (object (hd intersects)))
       \<and> (sorted (map distance intersects) \<longrightarrow>
            (\<forall>h\<in>set intersects. distance h \<le> distance (last intersects)))"
proof -
  have far: "\<forall>h\<in>set intersects. distance h \<le> distance (last intersects)"
    if "sorted (map distance intersects)"
  proof
    fix h assume "h \<in> set intersects"
    then obtain i where i: "i < length intersects" "intersects ! i = h"
      by (auto simp: in_set_conv_nth)
    have "map distance intersects ! i \<le> map distance intersects ! (length intersects - 1)"
      using that i(1) by (intro sorted_nth_mono) auto
    then show "distance h \<le> distance (last intersects)"
      using i assms by (simp add: last_conv_nth)
  qed
  show ?thesis using assms far by (simp add: selected_update)
qed

theorem update_picks_last_witness:
  "[hit 1 1, hit 3 2] \<noteq> []
   \<and> selected (state_of (update example_loaded [hit 1 1, hit 3 2])) = Some 2
   \<and> selected (state_of (update example_loaded [hit 1 1, hit 3 2])) \<noteq> Some 1"
  using update_picks_last [of "[hit 1 1, hit 3 2]" example_loaded]
  by (simp add: hit_def)

text \<open>
  Claim C6. When the pick of a frame is the current selection, \<open>update\<close> returns the
  state unchanged (no write at all, so no entry is added to the history). Hence, over
  consecutive frames that all pick the same mesh \<open>b\<close>, the state after the last
  frame is the state after the first, and the history holds exactly one more
  selection of \<open>b\<close> and one more highlight of its material than before.
\<close>
theorem same_pick_is_idempotent:
  assumes "\<forall>f\<in>set (f0 # fs). f \<noteq> [] \<and> object (last f) = b"
  shows "(selected app = Some b \<longrightarrow>
            update app f0 = Returned app \<and> frames app (f0 # fs) = app)
       \<and> (selected app \<noteq> Some b \<longrightarrow>
            frames app (f0 # fs) = state_of (update app f0)
          \<and> count_list (effects (frames app (f0 # fs))) (SelectedSet (Some b))
              = Suc (count_list (effects app) (SelectedSet (Some b)))
          \<and> count_list (effects (frames app (f0 # fs))) (OpacitySet (materialOf app b) (1/4))
              = Suc (count_list (effects app) (OpacitySet (materialOf app b) (1/4))))"
proof -
  have f0: "f0 \<noteq> []" "object (last f0) = b" and fs: "\<forall>f\<in>set fs. f \<noteq> [] \<and> object (last f) = b"
    using assms by simp_all
  have same: "update app f0 = Returned app \<and> frames app (f0 # fs) = app"
    if "selected app = Some b"
    using that f0 frames_same [OF assms that] by (simp add: update_same)
  have change: "frames app (f0 # fs) = state_of (update app f0)
          \<and> count_list (effects (frames app (f0 # fs))) (SelectedSet (Some b))
              = Suc (count_list (effects app) (SelectedSet (Some b)))
          \<and> count_list (effects (frames app (f0 # fs))) (OpacitySet (materialOf app b) (1/4))
              = Suc (count_list (effects app) (OpacitySet (materialOf app b) (1/4)))"
    if ne: "selected app \<noteq> Some b"
  proof -
    have sel: "selected (state_of (update app f0)) = Some b"
      using f0 by (simp add: selected_update)
    have run: "frames app (f0 # fs) = state_of (update app f0)"
      using frames_same [OF fs sel] by (simp add: frames_Cons)
    show ?thesis
      unfolding run effects_update [OF f0(1) ne f0(2)]
      by (simp add: count_resolve_effects split: option.splits)
  qed
  show ?thesis using same change by blast
qed

theorem same_pick_is_idempotent_witness:
  "object (last [hit 1 1, hit 3 2]) = 2 \<and> object (last [hit 2 2]) = 2
   \<and> object (last [hit 5 2]) = 2
   \<and> selected example_loaded \<noteq> Some 2
   \<and> frames example_loaded ([hit 1 1, hit 3 2] # [[hit 2 2], [hit 5 2]])
       = state_of (update example_loaded [hit 1 1, hit 3 2])
   \<and> count_list (effects (frames example_loaded ([hit 1 1, hit 3 2] # [[hit 2 2], [hit 5 2]])))
        (SelectedSet (Some 2)) = 1"
proof -
  have h: "\<forall>f\<in>set ([hit 1 1, hit 3 2] # [[hit 2 2], [hit 5 2]]). f \<noteq> [] \<and> object (last f) = 2"
    by (simp add: hit_def)
  have n: "selected example_loaded \<noteq> Some 2" "effects example_loaded =
      [CaptionVisibility ''hidden'', DetailVisibility ''hidden'']"
    by (simp_all add: example_defs ui_defs)
  from same_pick_is_idempotent [OF h, of example_loaded] n(1)
  have r: "frames example_loaded ([hit 1 1, hit 3 2] # [[hit 2 2], [hit 5 2]])
       = state_of (update example_loaded [hit 1 1, hit 3 2])"
   and c: "count_list (effects (frames example_loaded ([hit 1 1, hit 3 2] # [[hit 2 2], [hit 5 2]])))
        (SelectedSet (Some 2)) = Suc (count_list (effects example_loaded) (SelectedSet (Some 2)))"
    by blast+
  have "count_list (effects example_loaded) (SelectedSet (Some 2)) = 0"
    by (simp add: n(2))
  with c have c': "count_list (effects (frames example_loaded
        ([hit 1 1, hit 3 2] # [[hit 2 2], [hit 5 2]]))) (SelectedSet (Some 2)) = 1"
    by simp
  have l: "object (last [hit 1 1, hit 3 2]) = 2" "object (last [hit 2 2]) = 2"
      "object (last [hit 5 2]) = 2"
    by simp_all
  show ?thesis using l n(1) r c' by blast
qed


text \<open>
  Claim C7. When a frame changes the selection from \<open>a\<close> to a different \<open>b\<close>, the
  deselection of \<open>a\<close> is done first: \<open>deselect\<close> leaves a state in which the opacity
  of the material of \<open>a\<close> is 0, nothing is selected and the caption is hidden. The
  writes of the selection of \<open>b\<close> are then applied to that state. So, after the
  frame, \<open>b\<close> is selected, the opacities are those before the frame with 0 written
  for the material of \<open>a\<close> and then 0.25 for the material of \<open>b\<close> (the later write
  wins where the two meshes share a material), and the caption is visible with the
  caption of the figure exactly when a figure is found. The history of writes shows
  the same order.
\<close>
theorem deselect_before_select:
  assumes "intersects \<noteq> []"
      and "selected app = Some a"
      and "object (last intersects) = b"
      and "a \<noteq> b"
  shows "opacityOf (deselect app) = (opacityOf app)(materialOf app a := 0)
       \<and> selected (deselect app) = None
       \<and> visibility (caption (deselect app)) = ''hidden''
       \<and> state_of (update app intersects) =
           (case findFigure app (nameOf app b) of
              Inl e \<Rightarrow> highlight b (deselect app)
            | Inr figureData \<Rightarrow> present figureData (highlight b (deselect app)))
       \<and> selected (state_of (update app intersects)) = Some b
       \<and> opacityOf (state_of (update app intersects)) =
           (opacityOf app)(materialOf app a := 0, materialOf app b := 1/4)
       \<and> visibility (caption (state_of (update app intersects))) =
           (case findFigure app (nameOf app b) of
              Inr (Some fd) \<Rightarrow> ''visible'' | _ \<Rightarrow> ''hidden'')
       \<and> innerText (caption (state_of (update app intersects))) =
           (case findFigure app (nameOf app b) of
              Inr (Some fd) \<Rightarrow> fig_caption fd | _ \<Rightarrow> innerText (caption app))
       \<and> effects (state_of (update app intersects)) =
           effects app
             @ [OpacitySet (materialOf app a) 0, SelectedSet None, CaptionVisibility ''hidden'']
             @ [SelectedSet (Some b), OpacitySet (materialOf app b) (1/4),
                Logged (LogText (nameOf app b))]
             @ resolve_effects app b"
proof -
  have ne: "selected app \<noteq> Some b" using assms(2,4) by simp
  have ne': "selected app \<noteq> Some (object (last intersects))" using ne assms(3) by simp
  have sel: "selected (state_of (update app intersects)) = Some b"
    using assms(1,3) by (simp add: selected_update)
  have des: "selected (deselect app) = None" "visibility (caption (deselect app)) = ''hidden''"
    by simp_all
  have eff: "effects (state_of (update app intersects)) =
           effects app
             @ [OpacitySet (materialOf app a) 0, SelectedSet None, CaptionVisibility ''hidden'']
             @ [SelectedSet (Some b), OpacitySet (materialOf app b) (1/4),
                Logged (LogText (nameOf app b))]
             @ resolve_effects app b"
    using effects_update [OF assms(1) ne assms(3)] by (simp add: assms(2))
  show ?thesis
    using eff sel des opacityOf_update_change [OF assms]
      state_update_change [OF assms(1) ne', unfolded assms(3)]
      caption_update_change(1,2) [OF assms(1) ne', unfolded assms(3)]
      opacityOf_deselect [OF assms(2)]
    by blast
qed

theorem deselect_before_select_witness:
  "[hit 1 2] \<noteq> [] \<and> selected example_disclosed = Some 1 \<and> object (last [hit 1 2]) = 2
   \<and> (1::nat) \<noteq> 2
   \<and> opacityOf example_disclosed 1 = 1/4
   \<and> visibility (caption example_disclosed) = ''visible''
   \<and> opacityOf (deselect example_disclosed) 1 = 0
   \<and> visibility (caption (deselect example_disclosed)) = ''hidden''
   \<and> opacityOf (state_of (update example_disclosed [hit 1 2])) 1 = 0
   \<and> opacityOf (state_of (update example_disclosed [hit 1 2])) 2 = 1/4
   \<and> selected (state_of (update example_disclosed [hit 1 2])) = Some 2
   \<and> visibility (caption (state_of (update example_disclosed [hit 1 2]))) = ''visible''
   \<and> innerText (caption (state_of (update example_disclosed [hit 1 2]))) = ''B''
   \<and> drop (length (effects example_disclosed))
        (effects (state_of (update example_disclosed [hit 1 2]))) =
       [OpacitySet 1 0, SelectedSet None, CaptionVisibility ''hidden'',
        SelectedSet (Some 2), OpacitySet 2 (1/4), Logged (LogText ''fig2''),
        Logged (LogJson (Some \<lparr>tag = ''fig2'', fig_caption = ''B'', fig_detail = ''Long B''\<rparr>)),
        CaptionVisibility ''visible'', CaptionText ''B'', DetailText ''Long B'',
        Logged (LogJson (Some \<lparr>tag = ''fig2'', fig_caption = ''B'', fig_detail = ''Long B''\<rparr>))]"
proof -
  have h1: "[hit 1 2] \<noteq> []" by simp
  have h2: "selected example_disclosed = Some 1"
    by (simp add: example_defs code_defs ui_defs)
  have h3: "object (last [hit 1 2]) = 2" by simp
  have h4: "(1::nat) \<noteq> 2" by simp
  have f: "findFigure example_disclosed (nameOf example_disclosed 2) =
       Inr (Some \<lparr>tag = ''fig2'', fig_caption = ''B'', fig_detail = ''Long B''\<rparr>)"
    by (simp add: example_defs code_defs ui_defs)
  have r: "resolve_effects example_disclosed 2 =
       [Logged (LogJson (Some \<lparr>tag = ''fig2'', fig_caption = ''B'', fig_detail = ''Long B''\<rparr>)),
        CaptionVisibility ''visible'', CaptionText ''B'', DetailText ''Long B'',
        Logged (LogJson (Some \<lparr>tag = ''fig2'', fig_caption = ''B'', fig_detail = ''Long B''\<rparr>))]"
    by (simp add: resolve_effects_def f)
  have m: "materialOf example_disclosed = (\<lambda>m. m)" "nameOf example_disclosed 2 = ''fig2''"
      "opacityOf example_disclosed 1 = 1/4"
      "visibility (caption example_disclosed) = ''visible''"
    by (simp_all add: example_defs code_defs ui_defs)
  note t = deselect_before_select [OF h1 h2 h3 h4]
  have t1: "opacityOf (deselect example_disclosed)
       = (opacityOf example_disclosed)(materialOf example_disclosed 1 := 0)"
    using t by blast
  have t2: "opacityOf (state_of (update example_disclosed [hit 1 2]))
       = (opacityOf example_disclosed)(materialOf example_disclosed 1 := 0,
            materialOf example_disclosed 2 := 1/4)"
    using t by blast
  have t3: "visibility (caption (state_of (update example_disclosed [hit 1 2]))) =
      (case findFigure example_disclosed (nameOf example_disclosed 2) of
         Inr (Some fd) \<Rightarrow> ''visible'' | _ \<Rightarrow> ''hidden'')"
    using t by blast
  have t4: "innerText (caption (state_of (update example_disclosed [hit 1 2]))) =
      (case findFigure example_disclosed (nameOf example_disclosed 2) of
         Inr (Some fd) \<Rightarrow> fig_caption fd | _ \<Rightarrow> innerText (caption example_disclosed))"
    using t by blast
  have t5: "effects (state_of (update example_disclosed [hit 1 2])) =
      effects example_disclosed
        @ [OpacitySet (materialOf example_disclosed 1) 0, SelectedSet None,
           CaptionVisibility ''hidden'']
        @ [SelectedSet (Some 2), OpacitySet (materialOf example_disclosed 2) (1/4),
           Logged (LogText (nameOf example_disclosed 2))]
        @ resolve_effects example_disclosed 2"
    using t by blast
  have o: "opacityOf (deselect example_disclosed) 1 = 0"
      "opacityOf (state_of (update example_disclosed [hit 1 2])) 1 = 0"
      "opacityOf (state_of (update example_disclosed [hit 1 2])) 2 = 1/4"
    by (simp_all add: t1 t2 m(1))
  have c: "visibility (caption (deselect example_disclosed)) = ''hidden''"
      "selected (state_of (update example_disclosed [hit 1 2])) = Some 2"
      "visibility (caption (state_of (update example_disclosed [hit 1 2]))) = ''visible''"
      "innerText (caption (state_of (update example_disclosed [hit 1 2]))) = ''B''"
    using t apply blast
    using t apply blast
    unfolding t3 t4 f by simp_all
  have e: "drop (length (effects example_disclosed))
        (effects (state_of (update example_disclosed [hit 1 2]))) =
       [OpacitySet 1 0, SelectedSet None, CaptionVisibility ''hidden'',
        SelectedSet (Some 2), OpacitySet 2 (1/4), Logged (LogText ''fig2''),
        Logged (LogJson (Some \<lparr>tag = ''fig2'', fig_caption = ''B'', fig_detail = ''Long B''\<rparr>)),
        CaptionVisibility ''visible'', CaptionText ''B'', DetailText ''Long B'',
        Logged (LogJson (Some \<lparr>tag = ''fig2'', fig_caption = ''B'', fig_detail = ''Long B''\<rparr>))]"
    by (simp add: t5 r m(1,2))
  show ?thesis using h1 h2 h3 h4 m(3,4) o c e by blast
qed

subsection \<open>Resolving a tag\<close>

text \<open>
  Claim C9. The loop of \<open>findFigure\<close> returns the figure at the least index whose
  tag equals the given tag, and null exactly when no figure has that tag; with the
  mural loaded, that is the result of \<open>findFigure\<close>. When a frame selects a new mesh
  and \<open>findFigure\<close> returns null, \<open>update\<close> returns without throwing, the mesh is
  selected, the opacity of its material is 0.25, the caption is hidden with its text
  unchanged, and the detail element is untouched.
\<close>
theorem findFigure_first_match:
  "(findFigure_loop fs t = Some f \<longleftrightarrow>
      (\<exists>i<length fs. fs ! i = f \<and> tag f = t \<and> (\<forall>j<i. tag (fs ! j) \<noteq> t)))
   \<and> (findFigure_loop fs t = None \<longleftrightarrow> (\<forall>g\<in>set fs. tag g \<noteq> t))
   \<and> (muralData app = Some md \<longrightarrow> findFigure app t = Inr (findFigure_loop (figures md) t))
   \<and> (intersects \<noteq> [] \<and> selected app \<noteq> Some (object (last intersects))
        \<and> findFigure app (nameOf app (object (last intersects))) = Inr None \<longrightarrow>
        returns (update app intersects)
      \<and> selected (state_of (update app intersects)) = Some (object (last intersects))
      \<and> opacityOf (state_of (update app intersects))
           (materialOf (state_of (update app intersects)) (object (last intersects))) = 1/4
      \<and> visibility (caption (state_of (update app intersects))) = ''hidden''
      \<and> innerText (caption (state_of (update app intersects))) = innerText (caption app)
      \<and> detail (state_of (update app intersects)) = detail app)"
proof -
  have a: "findFigure_loop fs t = Some f \<longleftrightarrow>
      (\<exists>i<length fs. fs ! i = f \<and> tag f = t \<and> (\<forall>j<i. tag (fs ! j) \<noteq> t))"
    unfolding findFigure_loop_find find_Some_iff by auto
  have b: "findFigure_loop fs t = None \<longleftrightarrow> (\<forall>g\<in>set fs. tag g \<noteq> t)"
    unfolding findFigure_loop_find find_None_iff by auto
  have c: "muralData app = Some md \<longrightarrow> findFigure app t = Inr (findFigure_loop (figures md) t)"
    by (simp add: findFigure_def)
  have d: "returns (update app intersects)
      \<and> selected (state_of (update app intersects)) = Some (object (last intersects))
      \<and> opacityOf (state_of (update app intersects))
           (materialOf (state_of (update app intersects)) (object (last intersects))) = 1/4
      \<and> visibility (caption (state_of (update app intersects))) = ''hidden''
      \<and> innerText (caption (state_of (update app intersects))) = innerText (caption app)
      \<and> detail (state_of (update app intersects)) = detail app"
    if h: "intersects \<noteq> []" "selected app \<noteq> Some (object (last intersects))"
          "findFigure app (nameOf app (object (last intersects))) = Inr None"
    using h(3) update_change [OF h(1,2)]
    by (auto simp: findFigure_def split: option.splits)
  show ?thesis using a b c d by blast
qed

theorem findFigure_first_match_witness:
  "findFigure_loop (figures example_mural) ''fig2''
     = Some \<lparr>tag = ''fig2'', fig_caption = ''B'', fig_detail = ''Long B''\<rparr>
   \<and> findFigure example_loaded (nameOf example_loaded (object (last [hit 1 3]))) = Inr None
   \<and> [hit 1 3] \<noteq> [] \<and> selected example_loaded \<noteq> Some (object (last [hit 1 3]))
   \<and> returns (update example_loaded [hit 1 3])
   \<and> selected (state_of (update example_loaded [hit 1 3])) = Some 3
   \<and> opacityOf (state_of (update example_loaded [hit 1 3])) 3 = 1/4
   \<and> visibility (caption (state_of (update example_loaded [hit 1 3]))) = ''hidden''"
proof -
  have h: "[hit 1 3] \<noteq> []" "selected example_loaded \<noteq> Some (object (last [hit 1 3]))"
      "findFigure example_loaded (nameOf example_loaded (object (last [hit 1 3]))) = Inr None"
    by (simp_all add: example_defs code_defs ui_defs)
  have f: "findFigure_loop (figures example_mural) ''fig2''
     = Some \<lparr>tag = ''fig2'', fig_caption = ''B'', fig_detail = ''Long B''\<rparr>"
    by (simp add: example_mural_def)
  have m: "materialOf example_loaded = (\<lambda>m. m)" "object (last [hit 1 3]) = 3"
    by (simp_all add: example_defs ui_defs)
  show ?thesis
    using h f findFigure_first_match [of "figures example_mural" "''fig2''"
        "\<lparr>tag = ''fig2'', fig_caption = ''B'', fig_detail = ''Long B''\<rparr>"
        example_loaded example_mural "[hit 1 3]"]
    by (simp add: m)
qed

subsection \<open>Selection is by object identity\<close>

text \<open>
  Claim C10. When the pick of a frame is a mesh \<open>b\<close> other than the selected mesh
  \<open>a\<close>, and the two have the same name, \<open>update\<close> does not treat it as the same
  selection. The state changes and \<open>b\<close> is selected. The deselection of \<open>a\<close> is
  carried out (opacity of its material 0, caption hidden) and the selection of \<open>b\<close>
  is applied to the state it leaves: the opacities are those before the frame with 0
  written for the material of \<open>a\<close> and then 0.25 for the material of \<open>b\<close>. The tag
  is resolved again: caption and detail texts are those of the figure found for the
  common name, the caption being visible exactly when one is found. The history
  gains the whole sequence of writes.
\<close>
theorem selection_by_identity:
  assumes "intersects \<noteq> []"
      and "selected app = Some a"
      and "object (last intersects) = b"
      and "a \<noteq> b"
      and "nameOf app a = nameOf app b"
  shows "update app intersects \<noteq> Returned app
       \<and> selected (state_of (update app intersects)) = Some b
       \<and> opacityOf (deselect app) = (opacityOf app)(materialOf app a := 0)
       \<and> visibility (caption (deselect app)) = ''hidden''
       \<and> state_of (update app intersects) =
           (case findFigure app (nameOf app a) of
              Inl e \<Rightarrow> highlight b (deselect app)
            | Inr figureData \<Rightarrow> present figureData (highlight b (deselect app)))
       \<and> opacityOf (state_of (update app intersects)) =
           (opacityOf app)(materialOf app a := 0, materialOf app b := 1/4)
       \<and> opacityOf (state_of (update app intersects)) (materialOf app b) = 1/4
       \<and> visibility (caption (state_of (update app intersects))) =
           (case findFigure app (nameOf app a) of
              Inr (Some fd) \<Rightarrow> ''visible'' | _ \<Rightarrow> ''hidden'')
       \<and> innerText (caption (state_of (update app intersects))) =
           (case findFigure app (nameOf app a) of
              Inr (Some fd) \<Rightarrow> fig_caption fd | _ \<Rightarrow> innerText (caption app))
       \<and> innerText (detail (state_of (update app intersects))) =
           (case findFigure app (nameOf app a) of
              Inr (Some fd) \<Rightarrow> fig_detail fd | _ \<Rightarrow> innerText (detail app))
       \<and> effects (state_of (update app intersects)) =
           effects app
             @ [OpacitySet (materialOf app a) 0, SelectedSet None, CaptionVisibility ''hidden'']
             @ [SelectedSet (Some b), OpacitySet (materialOf app b) (1/4),
                Logged (LogText (nameOf app a))]
             @ resolve_effects app a"
proof -
  have ne: "selected app \<noteq> Some b" using assms(2,4) by simp
  have ne': "selected app \<noteq> Some (object (last intersects))" using ne assms(3) by simp
  have sel: "selected (state_of (update app intersects)) = Some b"
    using assms(1,3) by (simp add: selected_update)
  have neq: "update app intersects \<noteq> Returned app"
  proof
    assume "update app intersects = Returned app"
    then have "selected (state_of (update app intersects)) = selected app" by simp
    with sel ne show False by simp
  qed
  have res: "resolve_effects app b = resolve_effects app a"
    by (simp add: resolve_effects_def assms(5))
  have des: "visibility (caption (deselect app)) = ''hidden''"
    by simp
  have eff: "effects (state_of (update app intersects)) =
           effects app
             @ [OpacitySet (materialOf app a) 0, SelectedSet None, CaptionVisibility ''hidden'']
             @ [SelectedSet (Some b), OpacitySet (materialOf app b) (1/4),
                Logged (LogText (nameOf app a))]
             @ resolve_effects app a"
    using effects_update [OF assms(1) ne assms(3)] res by (simp add: assms(2,5))
  have op: "opacityOf (state_of (update app intersects)) =
           (opacityOf app)(materialOf app a := 0, materialOf app b := 1/4)"
    by (rule opacityOf_update_change [OF assms(1-4)])
  have opb: "opacityOf (state_of (update app intersects)) (materialOf app b) = 1/4"
    by (simp add: op)
  have nm: "nameOf app (object (last intersects)) = nameOf app a"
    by (simp add: assms(3,5))
  show ?thesis
    using eff neq sel des op opb
      state_update_change [OF assms(1) ne', unfolded nm, unfolded assms(3)]
      caption_update_change [OF assms(1) ne', unfolded nm]
      opacityOf_deselect [OF assms(2)]
    by blast
qed

theorem selection_by_identity_witness:
  "[hit 1 4] \<noteq> []
   \<and> selected (state_of (update example_loaded [hit 1 3])) = Some 3
   \<and> object (last [hit 1 4]) = 4 \<and> (3::nat) \<noteq> 4
   \<and> nameOf (state_of (update example_loaded [hit 1 3])) 3
       = nameOf (state_of (update example_loaded [hit 1 3])) 4
   \<and> opacityOf (state_of (update example_loaded [hit 1 3])) 3 = 1/4
   \<and> update (state_of (update example_loaded [hit 1 3])) [hit 1 4]
       \<noteq> Returned (state_of (update example_loaded [hit 1 3]))
   \<and> selected (state_of (update (state_of (update example_loaded [hit 1 3])) [hit 1 4])) = Some 4
   \<and> opacityOf (state_of (update (state_of (update example_loaded [hit 1 3])) [hit 1 4])) 3 = 0
   \<and> opacityOf (state_of (update (state_of (update example_loaded [hit 1 3])) [hit 1 4])) 4 = 1/4
   \<and> visibility (caption (state_of (update (state_of (update example_loaded [hit 1 3]))
        [hit 1 4]))) = ''hidden''"
proof -
  have h1: "[hit 1 4] \<noteq> []" by simp
  have h2: "selected (state_of (update example_loaded [hit 1 3])) = Some 3"
    by (simp add: selected_update)
  have h3: "object (last [hit 1 4]) = 4" by simp
  have h4: "(3::nat) \<noteq> 4" by simp
  have h5: "nameOf (state_of (update example_loaded [hit 1 3])) 3
       = nameOf (state_of (update example_loaded [hit 1 3])) 4"
    by (simp add: example_defs ui_defs)
  have m: "materialOf example_loaded = (\<lambda>m. m)"
    by (simp add: example_defs ui_defs)
  have f: "findFigure (state_of (update example_loaded [hit 1 3]))
             (nameOf (state_of (update example_loaded [hit 1 3])) 3) = Inr None"
    by (simp add: findFigure_def) (simp add: example_defs ui_defs)
  have o: "opacityOf (state_of (update example_loaded [hit 1 3])) 3 = 1/4"
    by (simp add: example_defs code_defs ui_defs)
  note t = selection_by_identity [OF h1 h2 h3 h4 h5]
  have r: "update (state_of (update example_loaded [hit 1 3])) [hit 1 4]
       \<noteq> Returned (state_of (update example_loaded [hit 1 3]))"
    "selected (state_of (update (state_of (update example_loaded [hit 1 3])) [hit 1 4])) = Some 4"
    using t by blast+
  have op: "opacityOf (state_of (update (state_of (update example_loaded [hit 1 3])) [hit 1 4]))
       = (opacityOf (state_of (update example_loaded [hit 1 3])))
           (materialOf (state_of (update example_loaded [hit 1 3])) 3 := 0,
            materialOf (state_of (update example_loaded [hit 1 3])) 4 := 1/4)"
    using t by blast
  have p: "opacityOf (state_of (update (state_of (update example_loaded [hit 1 3])) [hit 1 4])) 3 = 0"
    "opacityOf (state_of (update (state_of (update example_loaded [hit 1 3])) [hit 1 4])) 4 = 1/4"
    by (simp_all add: op m)
  have cv: "visibility (caption (state_of (update (state_of (update example_loaded [hit 1 3]))
        [hit 1 4]))) =
      (case findFigure (state_of (update example_loaded [hit 1 3]))
              (nameOf (state_of (update example_loaded [hit 1 3])) 3) of
         Inr (Some fd) \<Rightarrow> ''visible'' | _ \<Rightarrow> ''hidden'')"
    using t by blast
  have c: "visibility (caption (state_of (update (state_of (update example_loaded [hit 1 3]))
        [hit 1 4]))) = ''hidden''"
    unfolding cv f by simp
  show ?thesis using h1 h2 h3 h4 h5 o r p c by blast
qed

end
